theory Spec2Isabelle
  imports Complex_Main
begin

section \<open>GSMT frontend: selection, analysis and chart state of \<open>app.js\<close>\<close>

text \<open>
  The class \<open>GSMTApp\<close> keeps one mutable object \<open>this.state\<close>. Every method is
  modelled as a function that takes the state and returns the updated one. The DOM is
  not part of the state: a value read from a form control is an argument of the function
  that reads it, and calls that only repaint the page
  (\<open>updateSelectedSymbolsDisplay\<close>, \<open>updatePerformanceSummary\<close>, \<open>setOption\<close> of the
  chart library) leave the state as it is. Notifications are kept as a log, in the order
  \<open>showToast\<close> is called.
\<close>

subsection \<open>JavaScript containers\<close>

text \<open>
  A JavaScript \<open>Set\<close> iterates in insertion order and holds each value once: it is a
  list, \<open>add\<close> appends a value that is not there yet and \<open>delete\<close> takes it out.
\<close>

definition Set_has :: "'a list \<Rightarrow> 'a \<Rightarrow> bool" where
  "Set_has s x = (x \<in> set s)"

definition Set_add :: "'a \<Rightarrow> 'a list \<Rightarrow> 'a list" where
  "Set_add x s = (if Set_has s x then s else s @ [x])"

definition Set_delete :: "'a \<Rightarrow> 'a list \<Rightarrow> 'a list" where
  "Set_delete x s = filter (\<lambda>y. y \<noteq> x) s"

text \<open>
  A JavaScript \<open>Map\<close> is a list of entries in insertion order: \<open>set\<close> overwrites the
  value of a key that is present, where it stands, and appends a new key; \<open>delete\<close>
  removes the entry of a key.
\<close>

fun Map_set :: "'k \<Rightarrow> 'v \<Rightarrow> ('k \<times> 'v) list \<Rightarrow> ('k \<times> 'v) list" where
  "Map_set k v [] = [(k, v)]"
| "Map_set k v ((k', v') # m) = (if k' = k then (k, v) # m else (k', v') # Map_set k v m)"

definition Map_delete :: "'k \<Rightarrow> ('k \<times> 'v) list \<Rightarrow> ('k \<times> 'v) list" where
  "Map_delete k m = filter (\<lambda>e. fst e \<noteq> k) m"

definition Map_has :: "('k \<times> 'v) list \<Rightarrow> 'k \<Rightarrow> bool" where
  "Map_has m k = (k \<in> fst ` set m)"

definition Map_keys :: "('k \<times> 'v) list \<Rightarrow> 'k list" where
  "Map_keys m = map fst m"

subsection \<open>Data model\<close>

text \<open>
  A point of a series. JavaScript numbers are IEEE doubles; prices are idealised as
  reals, and no statement below depends on their arithmetic. Timestamps and volumes are
  integers far below \<open>2^53\<close>, where doubles are exact. The field \<open>timestamp\<close> of the
  source (the ISO rendering of \<open>timestamp_ms\<close>) is nowhere read and is left out.
\<close>

record point =
  timestamp_ms :: int
  open_price :: real
  high :: real
  low :: real
  close :: real
  volume :: int
  percentage_change :: real

datatype toast_type = Success | Error | Warning | Info

text \<open>A number as \<open>parseInt\<close> and \<open>Math.min\<close> return it: an integer or \<open>NaN\<close>.\<close>

datatype jsnum = Num int | NaN

text \<open>The values a settings object holds: what \<open>JSON.parse\<close> can produce, and \<open>NaN\<close>.\<close>

datatype jsval = JNull | JBool bool | JNumber jsnum | JString string

text \<open>
  A call of \<open>handleAnalyze\<close> that waits for the answer of \<open>fetch\<close>: the locals it
  will still read when it resumes.
\<close>

record request =
  req_symbols :: "string list"
  req_period :: string
  req_chart_type :: string

record app_state =
  apiBaseUrl :: "string option"
  selectedSymbols :: "string list"
  chartData :: "(string \<times> point list) list"
  settings :: "(string \<times> jsval) list"
  isLoading :: bool
  chartInstance :: bool
  toasts :: "(string \<times> toast_type) list"
  in_flight :: "request list"

definition showToast :: "string \<Rightarrow> toast_type \<Rightarrow> app_state \<Rightarrow> app_state" where
  "showToast message type st = st\<lparr>toasts := toasts st @ [(message, type)]\<rparr>"

subsection \<open>Selection set\<close>

definition addSymbol :: "string \<Rightarrow> app_state \<Rightarrow> app_state" where
  "addSymbol symbol st =
     (if Set_has (selectedSymbols st) symbol then
        showToast (symbol @ '' is already selected'') Warning st
      else if length (selectedSymbols st) \<ge> 10 then
        showToast ''Maximum 10 symbols allowed'' Warning st
      else
        showToast (''Added '' @ symbol @ '' to analysis'') Success
          (st\<lparr>selectedSymbols := Set_add symbol (selectedSymbols st)\<rparr>))"

definition removeSymbol :: "string \<Rightarrow> app_state \<Rightarrow> app_state" where
  "removeSymbol symbol st =
     showToast (''Removed '' @ symbol @ '' from analysis'') Info
       (st\<lparr>selectedSymbols := Set_delete symbol (selectedSymbols st),
           chartData := Map_delete symbol (chartData st)\<rparr>)"

definition handleClear :: "app_state \<Rightarrow> app_state" where
  "handleClear st =
     showToast ''Analysis cleared'' Info (st\<lparr>selectedSymbols := [], chartData := []\<rparr>)"

text \<open>The calls of the selection chips and the suggestion list, in the order they arrive.\<close>

datatype selection_call = AddCall string | RemoveCall string

fun apply_call :: "selection_call \<Rightarrow> app_state \<Rightarrow> app_state" where
  "apply_call (AddCall symbol) st = addSymbol symbol st"
| "apply_call (RemoveCall symbol) st = removeSymbol symbol st"

definition selection_calls :: "selection_call list \<Rightarrow> app_state \<Rightarrow> app_state" where
  "selection_calls cs st = fold apply_call cs st"

text \<open>The invariant of the selection: at most 10 symbols, each once.\<close>

definition selection_ok :: "app_state \<Rightarrow> bool" where
  "selection_ok st = (length (selectedSymbols st) \<le> 10 \<and> distinct (selectedSymbols st))"

subsection \<open>Plain objects used as dictionaries\<close>

text \<open>
  An object literal inherits from \<open>Object.prototype\<close>. It is modelled by the list of
  its own properties, in the order they were created. Reading \<open>obj[key]\<close> finds an own
  property first and a member of \<open>Object.prototype\<close> otherwise (a function, or for
  \<open>__proto__\<close> the prototype itself); only a key that is neither reads as
  \<open>undefined\<close>.
\<close>

definition Object_prototype_members :: "string list" where
  "Object_prototype_members =
     [''constructor'', ''__defineGetter__'', ''__defineSetter__'', ''hasOwnProperty'',
      ''__lookupGetter__'', ''__lookupSetter__'', ''isPrototypeOf'',
      ''propertyIsEnumerable'', ''toString'', ''valueOf'', ''__proto__'',
      ''toLocaleString'']"

datatype 'v property = Own 'v | Inherited | Undefined

definition Object_get :: "(string \<times> 'v) list \<Rightarrow> string \<Rightarrow> 'v property" where
  "Object_get obj key =
     (case map_of obj key of
        Some v \<Rightarrow> Own v
      | None \<Rightarrow> if key \<in> set Object_prototype_members then Inherited else Undefined)"

text \<open>
  The assignment \<open>obj[key] = value\<close>: an own property is overwritten where it
  stands; every inherited member is a writable data property and is shadowed by a new
  own property, except \<open>__proto__\<close>, an accessor whose setter creates no property
  (it replaces the prototype of \<open>obj\<close> when the value is an object).
\<close>

definition Object_put :: "string \<Rightarrow> 'v \<Rightarrow> (string \<times> 'v) list \<Rightarrow> (string \<times> 'v) list" where
  "Object_put key v obj = (if key = ''__proto__'' then obj else Map_set key v obj)"

text \<open>
  \<open>Object.entries\<close> lists the own properties whose key is an array index (the
  canonical decimal form of an integer below \<open>2^32 - 1\<close>) first, in ascending numeric
  order, and then the other keys in creation order.
\<close>

definition is_digit :: "char \<Rightarrow> bool" where
  "is_digit c = (48 \<le> (of_char c :: nat) \<and> (of_char c :: nat) \<le> 57)"

definition decimal :: "string \<Rightarrow> int" where
  "decimal s = foldl (\<lambda>n c. 10 * n + ((of_char c :: int) - 48)) 0 s"

definition is_array_index :: "string \<Rightarrow> bool" where
  "is_array_index s =
     (case s of
        [] \<Rightarrow> False
      | c # cs \<Rightarrow>
          list_all is_digit s \<and> (if cs = [] then True else c \<noteq> CHR ''0'')
          \<and> decimal s < 4294967295)"

definition Object_entries :: "(string \<times> 'v) list \<Rightarrow> (string \<times> 'v) list" where
  "Object_entries obj =
     sort_key (\<lambda>e. decimal (fst e)) (filter (\<lambda>e. is_array_index (fst e)) obj)
     @ filter (\<lambda>e. \<not> is_array_index (fst e)) obj"

subsection \<open>Randomness and the clock\<close>

text \<open>
  \<open>Math.random()\<close> and \<open>Date.now()\<close> read the outside world: the world gives the
  value of the n-th call of each, and counts the calls made so far. A clock reading is a
  time value of the platform, so that \<open>new Date\<close> of a reading less two years is a
  valid date, \<open>getTime\<close> returns the number it was built from and \<open>toISOString\<close>
  does not throw.
\<close>

record world =
  random_seq :: "nat \<Rightarrow> real"
  random_calls :: nat
  clock_seq :: "nat \<Rightarrow> int"
  clock_calls :: nat

definition Math_random :: "world \<Rightarrow> real \<times> world" where
  "Math_random w = (random_seq w (random_calls w), w\<lparr>random_calls := Suc (random_calls w)\<rparr>)"

definition Date_now :: "world \<Rightarrow> int \<times> world" where
  "Date_now w = (clock_seq w (clock_calls w), w\<lparr>clock_calls := Suc (clock_calls w)\<rparr>)"

subsection \<open>Synthetic analysis data\<close>

text \<open>
  \<open>getPeriodDays\<close> returns \<open>periodMap[period] || 1\<close>: the day count of a token of
  the table, 1 for a key that reads as \<open>undefined\<close>, and the inherited member itself
  (which is truthy) for a token that names one.
\<close>

datatype days = DayCount int | Member string

definition periodMap :: "(string \<times> int) list" where
  "periodMap =
     [(''24h'', 1), (''3d'', 3), (''1w'', 7), (''2w'', 14),
      (''1M'', 30), (''3M'', 90), (''6M'', 180), (''1Y'', 365), (''2Y'', 730)]"

definition getPeriodDays :: "string \<Rightarrow> days" where
  "getPeriodDays period =
     (case Object_get periodMap period of
        Own n \<Rightarrow> if n = 0 then DayCount 1 else DayCount n
      | Inherited \<Rightarrow> Member period
      | Undefined \<Rightarrow> DayCount 1)"

definition startsWith :: "string \<Rightarrow> string \<Rightarrow> bool" where
  "startsWith s pre = (take (length pre) s = pre)"

text \<open>
  The body of the \<open>for\<close> loop at index \<open>i\<close>, for a numeric day count: it reads
  the clock once and then draws two random numbers, the change and the volume. It
  returns the point it pushes and the new base price.
\<close>

definition demo_round :: "int \<Rightarrow> nat \<Rightarrow> real \<Rightarrow> world \<Rightarrow> point \<times> real \<times> world" where
  "demo_round days i basePrice w =
     (case Date_now w of (now, w1) \<Rightarrow>
      case Math_random w1 of (r1, w2) \<Rightarrow>
      case Math_random w2 of (r2, w3) \<Rightarrow>
        let timestamp = now - (days - int i) * 24 * 60 * 60 * 1000;
            change = (r1 - 0.5) * 0.04;
            basePrice' = basePrice * (1 + change);
            start = basePrice' / (1 + change) ^ (i + 1);
            percentageChange = ((basePrice' - start) / start) * 100
        in (\<lparr>timestamp_ms = timestamp,
             open_price = basePrice' * 0.99,
             high = basePrice' * 1.02,
             low = basePrice' * 0.98,
             close = basePrice',
             volume = \<lfloor>r2 * 10000000\<rfloor>,
             percentage_change = percentageChange\<rparr>,
            basePrice', w3))"

text \<open>The loop: \<open>i\<close> runs while \<open>i < Math.min(50, days)\<close>.\<close>

function demo_points :: "int \<Rightarrow> nat \<Rightarrow> real \<Rightarrow> point list \<Rightarrow> world \<Rightarrow> point list \<times> world" where
  "demo_points days i basePrice points w =
     (if int i < min 50 days then
        (case demo_round days i basePrice w of
           (p, basePrice', w') \<Rightarrow> demo_points days (i + 1) basePrice' (points @ [p]) w')
      else (points, w))"
  by pat_completeness auto
termination
  by (relation "measure (\<lambda>(days, i, basePrice, points, w). 50 - i)") auto

declare demo_points.simps [simp del]

text \<open>
  One round of \<open>symbols.forEach\<close>. When \<open>days\<close> is an inherited member,
  \<open>Math.min(50, days)\<close> is \<open>NaN\<close>, the test \<open>0 < NaN\<close> fails and the loop body never
  runs.
\<close>

definition symbol_points :: "days \<Rightarrow> string \<Rightarrow> world \<Rightarrow> point list \<times> world" where
  "symbol_points days symbol w =
     (case Math_random w of (r, w1) \<Rightarrow>
        let basePrice = (if startsWith symbol ''^'' then r * 30000 + 5000 else r * 400 + 50)
        in (case days of
              DayCount d \<Rightarrow> demo_points d 0 basePrice [] w1
            | Member m \<Rightarrow> ([], w1)))"

fun demo_symbols ::
  "days \<Rightarrow> string list \<Rightarrow> (string \<times> point list) list \<Rightarrow> world
     \<Rightarrow> (string \<times> point list) list \<times> world" where
  "demo_symbols days [] obj w = (obj, w)"
| "demo_symbols days (symbol # rest) obj w =
     (case symbol_points days symbol w of
        (points, w1) \<Rightarrow> demo_symbols days rest (Object_put symbol points obj) w1)"

record analysis =
  data :: "(string \<times> point list) list"
  success :: bool

definition generateDemoAnalysis :: "string list \<Rightarrow> string \<Rightarrow> world \<Rightarrow> analysis \<times> world" where
  "generateDemoAnalysis symbols period w =
     (case demo_symbols (getPeriodDays period) symbols [] w of
        (obj, w1) \<Rightarrow> (\<lparr>data = obj, success = True\<rparr>, w1))"

subsection \<open>Analysis orchestrator\<close>

text \<open>
  What \<open>await fetch(...)\<close> and \<open>await response.json()\<close> deliver: the promise is
  rejected, or a response arrives with a status and a body. The body is not JSON, or it
  is an object without a usable \<open>data\<close> member (\<open>Object.entries\<close> throws on
  \<open>undefined\<close>), or \<open>data\<close> is an object with the given own properties, each an
  array of points.
\<close>

datatype body = Malformed | No_data | Data "(string \<times> point list) list"

datatype fetch_result = Rejected | Response nat body

definition response_ok :: "nat \<Rightarrow> bool" where
  "response_ok status = (200 \<le> status \<and> status \<le> 299)"

text \<open>The object \<open>analysisData.data\<close> when the \<open>try\<close> block gets as far as storing it.\<close>

definition decoded :: "fetch_result \<Rightarrow> (string \<times> point list) list option" where
  "decoded result =
     (case result of
        Rejected \<Rightarrow> None
      | Response status b \<Rightarrow>
          if response_ok status then (case b of Data obj \<Rightarrow> Some obj | _ \<Rightarrow> None) else None)"

function show_nat :: "nat \<Rightarrow> string" where
  "show_nat n =
     (if n < 10 then [char_of (48 + n)] else show_nat (n div 10) @ [char_of (48 + n mod 10)])"
  by pat_completeness auto
termination
  by (relation "measure id") auto

definition setLoading :: "bool \<Rightarrow> app_state \<Rightarrow> app_state" where
  "setLoading loading st = st\<lparr>isLoading := loading\<rparr>"

definition truthy_url :: "string option \<Rightarrow> bool" where
  "truthy_url url = (case url of None \<Rightarrow> False | Some u \<Rightarrow> u \<noteq> [])"

text \<open>
  \<open>chartData.clear()\<close> followed by \<open>chartData.set\<close> for every entry of
  \<open>Object.entries(analysisData.data)\<close>.
\<close>

definition store_analysis :: "(string \<times> point list) list \<Rightarrow> app_state \<Rightarrow> app_state" where
  "store_analysis obj st =
     st\<lparr>chartData := fold (\<lambda>e m. Map_set (fst e) (snd e) m) (Object_entries obj) []\<rparr>"

definition complete_toast :: "string list \<Rightarrow> string" where
  "complete_toast symbols =
     ''Analysis complete: '' @ show_nat (length symbols) @ '' symbols processed''"

text \<open>
  \<open>handleAnalyze\<close> up to its first \<open>await\<close>, or to its end when there is none. The
  arguments \<open>period\<close> and \<open>chartType\<close> are the values of the two select controls.
  With an API URL the call is suspended on \<open>fetch\<close> and joins \<open>in_flight\<close>; without
  one it generates demo data and finishes in the same turn of the event loop.
\<close>

definition handleAnalyze :: "string \<Rightarrow> string \<Rightarrow> app_state \<times> world \<Rightarrow> app_state \<times> world" where
  "handleAnalyze period chartType sw =
     (case sw of (st, w) \<Rightarrow>
        if length (selectedSymbols st) = 0 then
          (showToast ''Please select at least one symbol'' Warning st, w)
        else
          let st1 = setLoading True st;
              symbols = selectedSymbols st1
          in if truthy_url (apiBaseUrl st1) then
               (st1\<lparr>in_flight := in_flight st1 @
                   [\<lparr>req_symbols = symbols, req_period = period,
                     req_chart_type = chartType\<rparr>]\<rparr>, w)
             else
               (case generateDemoAnalysis symbols period w of
                  (analysisData, w1) \<Rightarrow>
                    (setLoading False
                       (showToast (complete_toast symbols) Success
                          (store_analysis (data analysisData) st1)), w1)))"

text \<open>
  The \<open>catch\<close> block: it reads the selection and the period again, as they are when the
  failure arrives.
\<close>

definition analysis_fallback :: "string \<Rightarrow> app_state \<times> world \<Rightarrow> app_state \<times> world" where
  "analysis_fallback period sw =
     (case sw of (st, w) \<Rightarrow>
        let st1 = showToast ''Analysis failed. Using demo data.'' Error st;
            symbols = selectedSymbols st1
        in case generateDemoAnalysis symbols period w of
             (demoData, w1) \<Rightarrow> (store_analysis (data demoData) st1, w1))"

text \<open>
  The rest of the \<open>i\<close>-th suspended call, run when its \<open>fetch\<close> settles with
  \<open>result\<close>; \<open>period\<close> is the value of the period control at that moment. The
  source waits a second time, for \<open>response.json()\<close>; it reads and writes no state
  between the two waits, so they are one step here. Nothing in the source orders the
  settlements or ties a response to the newest call.
\<close>

definition handleAnalyze_resume ::
  "nat \<Rightarrow> fetch_result \<Rightarrow> string \<Rightarrow> app_state \<times> world \<Rightarrow> app_state \<times> world" where
  "handleAnalyze_resume i result period sw =
     (case sw of (st, w) \<Rightarrow>
        if i < length (in_flight st) then
          let req = in_flight st ! i;
              st0 = st\<lparr>in_flight := take i (in_flight st) @ drop (Suc i) (in_flight st)\<rparr>
          in case decoded result of
               Some obj \<Rightarrow>
                 (setLoading False
                    (showToast (complete_toast (req_symbols req)) Success
                       (store_analysis obj st0)), w)
             | None \<Rightarrow>
                 (case analysis_fallback period (st0, w) of
                    (st1, w1) \<Rightarrow> (setLoading False st1, w1))
        else (st, w))"

text \<open>The events of the page that touch the selection or the chart data.\<close>

datatype event =
  Add string
| Remove string
| Clear
| Analyze string string
| Resume nat fetch_result string

fun step :: "event \<Rightarrow> app_state \<times> world \<Rightarrow> app_state \<times> world" where
  "step (Add symbol) sw = (addSymbol symbol (fst sw), snd sw)"
| "step (Remove symbol) sw = (removeSymbol symbol (fst sw), snd sw)"
| "step Clear sw = (handleClear (fst sw), snd sw)"
| "step (Analyze period chartType) sw = handleAnalyze period chartType sw"
| "step (Resume i result period) sw = handleAnalyze_resume i result period sw"

definition run :: "event list \<Rightarrow> app_state \<times> world \<Rightarrow> app_state \<times> world" where
  "run evs sw = fold step evs sw"

text \<open>An event that stores the data of a remote answer: a call resumed with a decoded body.\<close>

fun stores_remote_data :: "event \<Rightarrow> bool" where
  "stores_remote_data (Resume i result period) = (decoded result \<noteq> None)"
| "stores_remote_data e = False"

text \<open>The invariant of the data model: every key of the chart data is a selected symbol.\<close>

definition chart_keys_selected :: "app_state \<Rightarrow> bool" where
  "chart_keys_selected st = (set (Map_keys (chartData st)) \<subseteq> set (selectedSymbols st))"

subsection \<open>Chart renderer\<close>

text \<open>
  The option objects handed to the chart library. Of their members, the title text, the
  label format of the y axis and the series depend on the state; the others are
  constants of the source and are left out. A member the object does not have is
  \<open>None\<close>. Every series also has the constants \<open>type: 'line'\<close>, \<open>smooth: true\<close>,
  \<open>symbol: 'none'\<close> and \<open>lineStyle: {width: 2}\<close>.
\<close>

record series =
  name :: string
  series_data :: "(int \<times> real) list"
  color :: string

record chart_option =
  title_text :: string
  yAxis_formatter :: "string option"
  series :: "series list option"

definition colors :: "string list" where
  "colors = [''#3b82f6'', ''#10b981'', ''#f59e0b'', ''#ef4444'',
             ''#8b5cf6'', ''#f97316'', ''#06b6d4'', ''#84cc16'']"

fun chart_series ::
  "string \<Rightarrow> (string \<times> point list) list \<Rightarrow> nat \<Rightarrow> series list \<Rightarrow> series list" where
  "chart_series chartType [] colorIndex acc = acc"
| "chart_series chartType (e # rest) colorIndex acc =
     chart_series chartType rest (colorIndex + 1)
       (if chartType = ''percentage'' then
          acc @ [\<lparr>name = fst e,
                  series_data = map (\<lambda>p. (timestamp_ms p, percentage_change p)) (snd e),
                  color = colors ! (colorIndex mod length colors)\<rparr>]
        else if chartType = ''price'' then
          acc @ [\<lparr>name = fst e,
                  series_data = map (\<lambda>p. (timestamp_ms p, close p)) (snd e),
                  color = colors ! (colorIndex mod length colors)\<rparr>]
        else acc)"

definition generateChartOption :: "string \<Rightarrow> app_state \<Rightarrow> chart_option" where
  "generateChartOption chartType st =
     \<lparr>title_text =
        (if chartType = ''percentage'' then ''Percentage Change Analysis''
         else ''Price Analysis''),
      yAxis_formatter =
        Some (if chartType = ''percentage'' then ''{value}%'' else ''${value}''),
      series = Some (chart_series chartType (chartData st) 0 [])\<rparr>"

definition getEmptyChartOption :: chart_option where
  "getEmptyChartOption =
     \<lparr>title_text = ''Select symbols to begin analysis'',
      yAxis_formatter = None,
      series = None\<rparr>"

text \<open>
  \<open>updateChart\<close> returns the arguments of its call of \<open>setOption\<close>: the option and
  the flag \<open>notMerge\<close>; \<open>None\<close> when there is no chart instance and nothing is
  called. \<open>chartType\<close> is the value of the chart type control.
\<close>

definition updateChart :: "string \<Rightarrow> app_state \<Rightarrow> (chart_option \<times> bool) option" where
  "updateChart chartType st =
     (if \<not> chartInstance st then None
      else if length (chartData st) = 0 then Some (getEmptyChartOption, False)
      else Some (generateChartOption chartType st, True))"

subsection \<open>Settings store\<close>

text \<open>
  \<open>localStorage\<close> maps keys to strings and outlives the session; \<open>setItem\<close> is
  taken to succeed. \<open>JSON.stringify\<close> and \<open>JSON.parse\<close> belong to the platform and
  are parameters: \<open>JSON_parse\<close> gives the own properties of the value it parses,
  which is all the spread reads, and \<open>None\<close> when it throws.
\<close>

type_synonym storage = "string \<rightharpoonup> string"

definition defaultSettings :: "(string \<times> jsval) list" where
  "defaultSettings = [(''autoRefresh'', JBool False), (''refreshInterval'', JNumber (Num 300))]"

definition loadSettings ::
  "(string \<Rightarrow> (string \<times> jsval) list option) \<Rightarrow> storage \<Rightarrow> (string \<times> jsval) list" where
  "loadSettings JSON_parse ls =
     (case ls ''gsmt-settings'' of
        None \<Rightarrow> defaultSettings
      | Some saved \<Rightarrow>
          if saved = [] then defaultSettings
          else (case JSON_parse saved of
                  None \<Rightarrow> defaultSettings
                | Some parsed \<Rightarrow>
                    fold (\<lambda>e obj. Map_set (fst e) (snd e) obj) (Object_entries parsed)
                      defaultSettings))"

text \<open>
  \<open>saveSettings\<close> with the values of the three form controls: the trimmed URL, the
  checkbox and \<open>parseInt\<close> of the interval field. The connection test and the timer
  that follow the two writes touch neither the settings nor the storage.
\<close>

definition saveSettings ::
  "((string \<times> jsval) list \<Rightarrow> string) \<Rightarrow> string \<Rightarrow> bool \<Rightarrow> jsnum
     \<Rightarrow> app_state \<times> storage \<Rightarrow> app_state \<times> storage" where
  "saveSettings JSON_stringify apiUrl autoRefresh refreshInterval sl =
     (case sl of (st, ls) \<Rightarrow>
        let st1 = st\<lparr>apiBaseUrl := Some apiUrl,
                     settings :=
                       Object_put ''refreshInterval'' (JNumber refreshInterval)
                         (Object_put ''autoRefresh'' (JBool autoRefresh) (settings st))\<rparr>;
            ls1 = ls(''gsmt-api-url'' \<mapsto> apiUrl);
            ls2 = ls1(''gsmt-settings'' \<mapsto> JSON_stringify (settings st1))
        in (showToast ''Settings saved successfully'' Success st1, ls2))"

text \<open>
  The state the constructor builds in a new session; \<open>url\<close> is what \<open>detectApiUrl\<close>
  returns there.
\<close>

definition GSMTApp ::
  "(string \<Rightarrow> (string \<times> jsval) list option) \<Rightarrow> string option \<Rightarrow> storage \<Rightarrow> app_state" where
  "GSMTApp JSON_parse url ls =
     \<lparr>apiBaseUrl = url, selectedSymbols = [], chartData = [],
      settings = loadSettings JSON_parse ls, isLoading = False, chartInstance = False,
      toasts = [], in_flight = []\<rparr>"

definition initializeChart :: "app_state \<Rightarrow> app_state" where
  "initializeChart st = st\<lparr>chartInstance := True\<rparr>"

subsection \<open>Concrete sessions\<close>

text \<open>
  Inputs on which the statements below are evaluated: a session without an API URL and
  with empty storage, a session with an API URL, a selection of ten symbols, a world
  whose clock stands still and one whose clock advances by a millisecond from one
  reading to the next.
\<close>

definition no_parse :: "string \<Rightarrow> (string \<times> jsval) list option" where
  "no_parse text = None"

definition demo_state :: app_state where
  "demo_state = initializeChart (GSMTApp no_parse None Map.empty)"

definition ten_symbols :: "string list" where
  "ten_symbols = [''A'', ''B'', ''C'', ''D'', ''E'', ''F'', ''G'', ''H'', ''I'', ''J'']"

definition full_state :: app_state where
  "full_state = demo_state\<lparr>selectedSymbols := ten_symbols\<rparr>"

definition still_world :: world where
  "still_world =
     \<lparr>random_seq = (\<lambda>n. 1 / 2), random_calls = 0,
      clock_seq = (\<lambda>n. 1700000000000), clock_calls = 0\<rparr>"

definition ticking_world :: world where
  "ticking_world =
     \<lparr>random_seq = (\<lambda>n. 1 / 2), random_calls = 0,
      clock_seq = (\<lambda>n. 1700000000000 + int n), clock_calls = 0\<rparr>"

definition api_state :: app_state where
  "api_state =
     demo_state\<lparr>apiBaseUrl := Some ''https://api.example'',
                selectedSymbols := [''A'', ''B'']\<rparr>"

definition sample_point :: "int \<Rightarrow> real \<Rightarrow> real \<Rightarrow> point" where
  "sample_point t c pc =
     \<lparr>timestamp_ms = t, open_price = c, high = c, low = c, close = c, volume = 0,
      percentage_change = pc\<rparr>"

definition charted_state :: app_state where
  "charted_state = full_state\<lparr>chartData := [(''A'', [sample_point 1 2 3])]\<rparr>"

text \<open>The answers of the remote service to a first and to a second request.\<close>

definition first_answer :: fetch_result where
  "first_answer =
     Response 200 (Data [(''A'', [sample_point 1 100 0]), (''B'', [sample_point 1 50 0])])"

definition second_answer :: fetch_result where
  "second_answer =
     Response 200 (Data [(''A'', [sample_point 2 200 0]), (''B'', [sample_point 2 70 0])])"

text \<open>
  A stand-in for the platform's JSON functions that knows one object:
  \<open>JSON.stringify\<close> maps the settings object with auto-refresh on and an interval
  of 60 seconds to its JSON text, and \<open>JSON.parse\<close> maps that text back.
\<close>

definition sample_settings :: "(string \<times> jsval) list" where
  "sample_settings = [(''autoRefresh'', JBool True), (''refreshInterval'', JNumber (Num 60))]"

definition sample_text :: string where
  \<open>sample_text = ''{"autoRefresh":true,"refreshInterval":60}''\<close>

definition sample_stringify :: "(string \<times> jsval) list \<Rightarrow> string" where
  "sample_stringify obj = (if obj = sample_settings then sample_text else ''{}'')"

definition sample_parse :: "string \<Rightarrow> (string \<times> jsval) list option" where
  "sample_parse s = (if s = sample_text then Some sample_settings else None)"

text \<open>
  Sessions with requests in flight: one analysis started, and two started one after the
  other.
\<close>

definition waiting_state :: app_state where
  "waiting_state = fst (run [Analyze ''1w'' ''price''] (api_state, still_world))"

definition overlapping_state :: app_state where
  "overlapping_state =
     fst (run [Analyze ''1w'' ''price'', Analyze ''1M'' ''price''] (api_state, still_world))"

section \<open>Properties\<close>

subsection \<open>Containers\<close>

lemma Set_add_distinct: "distinct s \<Longrightarrow> distinct (Set_add x s)"
  by (simp add: Set_add_def Set_has_def)

lemma Set_delete_distinct: "distinct s \<Longrightarrow> distinct (Set_delete x s)"
  by (simp add: Set_delete_def)

lemma Set_delete_length: "length (Set_delete x s) \<le> length s"
  by (simp add: Set_delete_def)

lemma set_Set_add: "set (Set_add x s) = insert x (set s)"
  by (auto simp: Set_add_def Set_has_def)

lemma set_Set_delete: "set (Set_delete x s) = set s - {x}"
  by (auto simp: Set_delete_def)

lemma Map_delete_absent: "\<not> Map_has m k \<Longrightarrow> Map_delete k m = m"
  by (induction m) (auto simp: Map_delete_def Map_has_def)

lemma Map_has_delete: "Map_has (Map_delete k m) k' \<longleftrightarrow> Map_has m k' \<and> k' \<noteq> k"
  by (auto simp: Map_delete_def Map_has_def)

lemma keys_Map_delete: "set (Map_keys (Map_delete k m)) = set (Map_keys m) - {k}"
  by (auto simp: Map_delete_def Map_keys_def)

lemma keys_Map_set: "set (Map_keys (Map_set k v m)) = insert k (set (Map_keys m))"
proof (induction m)
  case Nil
  show ?case by (simp add: Map_keys_def)
next
  case (Cons e m)
  obtain k' v' where e: "e = (k', v')" by (cases e)
  from Cons show ?case by (cases "k' = k") (auto simp: e Map_keys_def)
qed

subsection \<open>Synthetic generation\<close>

lemma demo_round_world:
  "snd (snd (demo_round d i bp w))
     = w\<lparr>random_calls := random_calls w + 2, clock_calls := Suc (clock_calls w)\<rparr>"
  by (simp add: demo_round_def Date_now_def Math_random_def Let_def)

lemma demo_round_timestamp:
  "timestamp_ms (fst (demo_round d i bp w))
     = clock_seq w (clock_calls w) - (d - int i) * 86400000"
  by (simp add: demo_round_def Date_now_def Math_random_def Let_def)

lemma demo_points_length:
  "length (fst (demo_points d i bp pts w)) = length pts + nat (min 50 d - int i)"
proof (induction d i bp pts w rule: demo_points.induct)
  case (1 days i basePrice points w)
  show ?case
  proof (cases "int i < min 50 days")
    case True
    obtain p bp' w' where r: "demo_round days i basePrice w = (p, bp', w')"
      by (cases "demo_round days i basePrice w")
    from True obtain n where n: "nat (min 50 days - int i) = Suc n"
      by (cases "nat (min 50 days - int i)") auto
    then have n': "nat (min 50 days - int (i + 1)) = n" by simp
    have ih: "length (fst (demo_points days (i + 1) bp' (points @ [p]) w'))
                = length (points @ [p]) + n"
      using "1" [OF True r [symmetric] refl] unfolding n' .
    show ?thesis
      by (subst demo_points.simps) (simp only: True if_True r prod.case ih n, simp)
  next
    case False
    then have z: "nat (min 50 days - int i) = 0" by linarith
    show ?thesis
      by (subst demo_points.simps) (simp only: False if_False z, simp)
  qed
qed

lemma demo_points_timestamps:
  "map timestamp_ms (fst (demo_points d i bp pts w))
     = map timestamp_ms pts
       @ map (\<lambda>k. clock_seq w (clock_calls w + k) - (d - int (i + k)) * 86400000)
           [0 ..< nat (min 50 d - int i)]"
proof (induction d i bp pts w rule: demo_points.induct)
  case (1 days i basePrice points w)
  show ?case
  proof (cases "int i < min 50 days")
    case True
    obtain p bp' w' where r: "demo_round days i basePrice w = (p, bp', w')"
      by (cases "demo_round days i basePrice w")
    have w': "w' = w\<lparr>random_calls := random_calls w + 2, clock_calls := Suc (clock_calls w)\<rparr>"
      using demo_round_world [of days i basePrice w] by (simp add: r)
    have p: "timestamp_ms p = clock_seq w (clock_calls w) - (days - int i) * 86400000"
      using demo_round_timestamp [of days i basePrice w] by (simp add: r)
    from True obtain n where n: "nat (min 50 days - int i) = Suc n"
      by (cases "nat (min 50 days - int i)") auto
    then have n': "nat (min 50 days - int (i + 1)) = n" by simp
    have ih: "map timestamp_ms (fst (demo_points days (i + 1) bp' (points @ [p]) w')) =
      map timestamp_ms (points @ [p]) @
      map (\<lambda>k. clock_seq w' (clock_calls w' + k) - (days - int (i + 1 + k)) * 86400000)
       [0..<n]"
      using "1" [OF True r [symmetric] refl] unfolding n' .
    have split: "[0..<Suc n] = 0 # map Suc [0..<n]"
      by (simp add: upt_conv_Cons map_Suc_upt del: upt_Suc)
    show ?thesis
      apply (subst demo_points.simps)
      apply (simp only: True if_True r prod.case ih n split)
      apply (simp add: w' p o_def)
      done
  next
    case False
    then have z: "nat (min 50 days - int i) = 0" by linarith
    show ?thesis
      by (subst demo_points.simps) (simp only: False if_False z, simp)
  qed
qed


lemma demo_points_clock_seq:
  "clock_seq (snd (demo_points d i bp pts w)) = clock_seq w"
proof (induction d i bp pts w rule: demo_points.induct)
  case (1 days i basePrice points w)
  show ?case
  proof (cases "int i < min 50 days")
    case True
    obtain p bp' w' where r: "demo_round days i basePrice w = (p, bp', w')"
      by (cases "demo_round days i basePrice w")
    have w': "w' = w\<lparr>random_calls := random_calls w + 2, clock_calls := Suc (clock_calls w)\<rparr>"
      using demo_round_world [of days i basePrice w] by (simp add: r)
    have ih: "clock_seq (snd (demo_points days (i + 1) bp' (points @ [p]) w')) = clock_seq w'"
      using "1" [OF True r [symmetric] refl] .
    show ?thesis
      by (subst demo_points.simps) (simp only: True if_True r prod.case ih, simp add: w')
  next
    case False
    show ?thesis
      by (subst demo_points.simps) (simp only: False if_False snd_conv)
  qed
qed

lemma symbol_points_clock_seq: "clock_seq (snd (symbol_points days symbol w)) = clock_seq w"
  by (cases days) (simp_all add: symbol_points_def Math_random_def Let_def demo_points_clock_seq)

lemma symbol_points_length:
  "length (fst (symbol_points (DayCount d) symbol w)) = nat (min 50 d)"
  by (simp add: symbol_points_def Math_random_def Let_def demo_points_length)

lemma symbol_points_Member: "fst (symbol_points (Member m) symbol w) = []"
  by (simp add: symbol_points_def Math_random_def Let_def)

lemma symbol_points_timestamps:
  "map timestamp_ms (fst (symbol_points (DayCount d) symbol w))
     = map (\<lambda>k. clock_seq w (clock_calls w + k) - (d - int k) * 86400000)
         [0 ..< nat (min 50 d)]"
  by (simp add: symbol_points_def Math_random_def Let_def demo_points_timestamps)

lemma set_Map_set: "set (Map_set k v m) \<subseteq> insert (k, v) (set m)"
  by (induction m) (auto split: if_splits)

lemma set_Object_put: "set (Object_put k v obj) \<subseteq> insert (k, v) (set obj)"
  using set_Map_set [of k v obj] by (auto simp: Object_put_def)

lemma keys_Object_put:
  "set (Map_keys (Object_put k v obj))
     = (if k = ''__proto__'' then set (Map_keys obj) else insert k (set (Map_keys obj)))"
  by (simp add: Object_put_def keys_Map_set)

lemma demo_symbols_entries:
  "(symbol, pts) \<in> set (fst (demo_symbols days syms obj w)) \<Longrightarrow>
     (symbol, pts) \<in> set obj
     \<or> (\<exists>w'. clock_seq w' = clock_seq w \<and> pts = fst (symbol_points days symbol w'))"
proof (induction syms arbitrary: obj w)
  case Nil
  then show ?case by simp
next
  case (Cons s syms)
  obtain ps w1 where sp: "symbol_points days s w = (ps, w1)"
    by (cases "symbol_points days s w")
  have w1: "clock_seq w1 = clock_seq w"
    using symbol_points_clock_seq [of days s w] by (simp add: sp)
  from Cons.prems have "(symbol, pts) \<in> set (fst (demo_symbols days syms (Object_put s ps obj) w1))"
    by (simp add: sp)
  from Cons.IH [OF this] show ?case
  proof
    assume "(symbol, pts) \<in> set (Object_put s ps obj)"
    with set_Object_put [of s ps obj] have "(symbol, pts) = (s, ps) \<or> (symbol, pts) \<in> set obj"
      by auto
    then show ?thesis
    proof
      assume "(symbol, pts) = (s, ps)"
      then have "pts = fst (symbol_points days symbol w)" by (simp add: sp)
      then show ?thesis by blast
    next
      assume "(symbol, pts) \<in> set obj"
      then show ?thesis by blast
    qed
  next
    assume "\<exists>w'. clock_seq w' = clock_seq w1 \<and> pts = fst (symbol_points days symbol w')"
    then show ?thesis by (auto simp: w1)
  qed
qed

lemma demo_symbols_keys:
  "set (Map_keys (fst (demo_symbols days syms obj w)))
     = set (Map_keys obj) \<union> (set syms - {''__proto__''})"
proof (induction syms arbitrary: obj w)
  case Nil
  then show ?case by simp
next
  case (Cons s syms)
  obtain ps w1 where sp: "symbol_points days s w = (ps, w1)"
    by (cases "symbol_points days s w")
  show ?case
    by (simp add: sp Cons.IH keys_Object_put) auto
qed

lemma generateDemoAnalysis_fst:
  "fst (generateDemoAnalysis symbols period w)
     = \<lparr>data = fst (demo_symbols (getPeriodDays period) symbols [] w), success = True\<rparr>"
  by (simp add: generateDemoAnalysis_def split: prod.split)

lemma generateDemoAnalysis_entries:
  "(symbol, pts) \<in> set (data (fst (generateDemoAnalysis symbols period w))) \<Longrightarrow>
     \<exists>w'. clock_seq w' = clock_seq w \<and> pts = fst (symbol_points (getPeriodDays period) symbol w')"
  using demo_symbols_entries [of symbol pts "getPeriodDays period" symbols "[]" w]
  by (simp add: generateDemoAnalysis_fst)

lemma generateDemoAnalysis_keys:
  "set (Map_keys (data (fst (generateDemoAnalysis symbols period w))))
     = set symbols - {''__proto__''}"
  using demo_symbols_keys [of "getPeriodDays period" symbols "[]" w]
  by (simp add: generateDemoAnalysis_fst Map_keys_def)

lemma getPeriodDays_1w: "getPeriodDays ''1w'' = DayCount 7"
  by (simp add: getPeriodDays_def Object_get_def periodMap_def)

subsection \<open>Selection invariant\<close>

lemma addSymbol_selection_ok: "selection_ok st \<Longrightarrow> selection_ok (addSymbol symbol st)"
  by (auto simp: selection_ok_def addSymbol_def showToast_def Set_add_def Set_has_def)

lemma removeSymbol_selection_ok: "selection_ok st \<Longrightarrow> selection_ok (removeSymbol symbol st)"
  using Set_delete_length [of symbol "selectedSymbols st"]
  by (auto simp: selection_ok_def removeSymbol_def showToast_def Set_delete_distinct)

lemma apply_call_ok: "selection_ok st \<Longrightarrow> selection_ok (apply_call c st)"
  by (cases c) (simp_all add: addSymbol_selection_ok removeSymbol_selection_ok)

lemma selection_calls_ok: "selection_ok st \<Longrightarrow> selection_ok (selection_calls cs st)"
  unfolding selection_calls_def
  by (induction cs arbitrary: st) (simp_all add: apply_call_ok)

text \<open>
  Claim C1. Whatever sequence of \<open>addSymbol\<close> and \<open>removeSymbol\<close> calls is made on a
  state whose selection is empty, the selection never holds more than 10 symbols and
  never holds a symbol twice.
\<close>

theorem selection_never_exceeds_ten:
  "selectedSymbols st = [] \<Longrightarrow>
   length (selectedSymbols (selection_calls cs st)) \<le> 10
   \<and> distinct (selectedSymbols (selection_calls cs st))"
proof -
  assume "selectedSymbols st = []"
  then have "selection_ok st" by (simp add: selection_ok_def)
  then have "selection_ok (selection_calls cs st)" by (rule selection_calls_ok)
  then show ?thesis by (simp add: selection_ok_def)
qed

theorem selection_never_exceeds_ten_witness:
  "selectedSymbols demo_state = []
   \<and> length (selectedSymbols
        (selection_calls (map AddCall ten_symbols @ [AddCall ''K'', AddCall ''A'',
           RemoveCall ''B'']) demo_state)) \<le> 10
   \<and> distinct (selectedSymbols
        (selection_calls (map AddCall ten_symbols @ [AddCall ''K'', AddCall ''A'',
           RemoveCall ''B'']) demo_state))"
proof -
  have h: "selectedSymbols demo_state = []"
    by (simp add: demo_state_def initializeChart_def GSMTApp_def)
  show ?thesis
    using h selection_never_exceeds_ten [OF h,
        of "map AddCall ten_symbols @ [AddCall ''K'', AddCall ''A'', RemoveCall ''B'']"]
    by simp
qed

subsection \<open>Validation failures\<close>

text \<open>
  Claim C7. Each validation failure changes nothing but the notification log, to which
  it appends one warning: adding a symbol that is already selected, adding a new symbol
  to a selection of 10 (or more), and running the analysis with an empty selection.
  The selection and the chart data are therefore as before.
\<close>

theorem validation_failure_only_warns:
  "(Set_has (selectedSymbols st) symbol \<longrightarrow>
      addSymbol symbol st
        = st\<lparr>toasts := toasts st @ [(symbol @ '' is already selected'', Warning)]\<rparr>)
   \<and> (\<not> Set_has (selectedSymbols st) symbol \<and> 10 \<le> length (selectedSymbols st) \<longrightarrow>
      addSymbol symbol st
        = st\<lparr>toasts := toasts st @ [(''Maximum 10 symbols allowed'', Warning)]\<rparr>)
   \<and> (selectedSymbols st = [] \<longrightarrow>
      handleAnalyze period chartType (st, w)
        = (st\<lparr>toasts := toasts st @ [(''Please select at least one symbol'', Warning)]\<rparr>,
           w))"
  by (simp add: addSymbol_def handleAnalyze_def showToast_def)

theorem validation_failure_only_warns_witness:
  "Set_has (selectedSymbols full_state) ''A''
   \<and> addSymbol ''A'' full_state
       = full_state\<lparr>toasts := toasts full_state @ [(''A is already selected'', Warning)]\<rparr>
   \<and> \<not> Set_has (selectedSymbols full_state) ''K''
   \<and> 10 \<le> length (selectedSymbols full_state)
   \<and> addSymbol ''K'' full_state
       = full_state\<lparr>toasts := toasts full_state
                        @ [(''Maximum 10 symbols allowed'', Warning)]\<rparr>
   \<and> selectedSymbols demo_state = []
   \<and> handleAnalyze ''1w'' ''price'' (demo_state, still_world)
       = (demo_state\<lparr>toasts := toasts demo_state
                         @ [(''Please select at least one symbol'', Warning)]\<rparr>,
          still_world)"
proof -
  have sel: "selectedSymbols full_state = ten_symbols"
    by (simp add: full_state_def)
  have h1: "Set_has (selectedSymbols full_state) ''A''"
    by (simp add: sel ten_symbols_def Set_has_def)
  have h2: "\<not> Set_has (selectedSymbols full_state) ''K''"
    by (simp add: sel ten_symbols_def Set_has_def)
  have h3: "10 \<le> length (selectedSymbols full_state)"
    by (simp add: sel ten_symbols_def)
  have h4: "selectedSymbols demo_state = []"
    by (simp add: demo_state_def initializeChart_def GSMTApp_def)
  from validation_failure_only_warns [of full_state "''A''"] h1
  have c1: "addSymbol ''A'' full_state
       = full_state\<lparr>toasts := toasts full_state @ [(''A is already selected'', Warning)]\<rparr>"
    by simp
  from validation_failure_only_warns [of full_state "''K''"] h2 h3
  have c2: "addSymbol ''K'' full_state
       = full_state\<lparr>toasts := toasts full_state
                        @ [(''Maximum 10 symbols allowed'', Warning)]\<rparr>"
    by simp
  from validation_failure_only_warns [of demo_state "''A''" "''1w''" "''price''" still_world] h4
  have c3: "handleAnalyze ''1w'' ''price'' (demo_state, still_world)
       = (demo_state\<lparr>toasts := toasts demo_state
                         @ [(''Please select at least one symbol'', Warning)]\<rparr>,
          still_world)"
    by simp
  show ?thesis by (intro conjI h1 h2 h3 h4 c1 c2 c3)
qed

subsection \<open>Removing a symbol\<close>

text \<open>
  Claim C8. \<open>removeSymbol\<close> takes the symbol out of the selection and out of the chart
  data: afterwards the symbol is in neither, every other key of the chart data keeps its
  series, and chart data that had no entry for the symbol is left exactly as it was.
\<close>

theorem removeSymbol_deletes_symbol_and_entry:
  "set (selectedSymbols (removeSymbol symbol st)) = set (selectedSymbols st) - {symbol}
   \<and> \<not> Map_has (chartData (removeSymbol symbol st)) symbol
   \<and> (\<forall>k. k \<noteq> symbol \<longrightarrow>
         map_of (chartData (removeSymbol symbol st)) k = map_of (chartData st) k)
   \<and> (\<not> Map_has (chartData st) symbol \<longrightarrow>
         chartData (removeSymbol symbol st) = chartData st)"
proof -
  have sel: "selectedSymbols (removeSymbol symbol st) = Set_delete symbol (selectedSymbols st)"
    by (simp add: removeSymbol_def showToast_def)
  have cd: "chartData (removeSymbol symbol st) = Map_delete symbol (chartData st)"
    by (simp add: removeSymbol_def showToast_def)
  have other: "map_of (Map_delete symbol m) k = map_of m k"
    if "k \<noteq> symbol" for k and m :: "(string \<times> point list) list"
    using that by (induction m) (auto simp: Map_delete_def)
  show ?thesis
    by (simp add: sel cd set_Set_delete Map_has_delete Map_delete_absent other)
qed

theorem removeSymbol_deletes_symbol_and_entry_witness:
  "\<not> Map_has (chartData (full_state\<lparr>chartData := [(''A'', [sample_point 1 2 3])]\<rparr>)) ''B''
   \<and> chartData (removeSymbol ''B'' (full_state\<lparr>chartData := [(''A'', [sample_point 1 2 3])]\<rparr>))
       = [(''A'', [sample_point 1 2 3])]
   \<and> ''A'' \<noteq> ''B''
   \<and> map_of (chartData (removeSymbol ''B''
         (full_state\<lparr>chartData := [(''A'', [sample_point 1 2 3])]\<rparr>))) ''A''
       = Some [sample_point 1 2 3]"
proof -
  let ?st = "full_state\<lparr>chartData := [(''A'', [sample_point 1 2 3])]\<rparr>"
  have h: "\<not> Map_has (chartData ?st) ''B''"
    by (simp add: Map_has_def)
  have ne: "''A'' \<noteq> ''B''" by simp
  note r = removeSymbol_deletes_symbol_and_entry [of "''B''" ?st]
  have c1: "chartData (removeSymbol ''B'' ?st) = chartData ?st"
    by (rule mp [OF r [THEN conjunct2, THEN conjunct2, THEN conjunct2] h])
  have c2: "map_of (chartData (removeSymbol ''B'' ?st)) ''A'' = map_of (chartData ?st) ''A''"
    by (rule r [THEN conjunct2, THEN conjunct2, THEN conjunct1, THEN spec, THEN mp, OF ne])
  have cd: "chartData ?st = [(''A'', [sample_point 1 2 3])]" by simp
  have c3: "map_of (chartData (removeSymbol ''B'' ?st)) ''A'' = Some [sample_point 1 2 3]"
    unfolding c2 cd by simp
  have c4: "chartData (removeSymbol ''B'' ?st) = [(''A'', [sample_point 1 2 3])]"
    unfolding c1 cd by (rule refl)
  show ?thesis by (intro conjI h ne c3 c4)
qed

subsection \<open>Synthetic series\<close>

lemma generateDemoAnalysis_single:
  "symbol \<noteq> ''__proto__'' \<Longrightarrow>
   data (fst (generateDemoAnalysis [symbol] period w))
     = [(symbol, fst (symbol_points (getPeriodDays period) symbol w))]"
  by (simp add: generateDemoAnalysis_fst Object_put_def split: prod.split)

lemma generateDemoAnalysis_snd:
  "snd (generateDemoAnalysis symbols period w)
     = snd (demo_symbols (getPeriodDays period) symbols [] w)"
  by (simp add: generateDemoAnalysis_def split: prod.split)

lemma demo_symbols_clock_seq:
  "clock_seq (snd (demo_symbols days symbols obj w)) = clock_seq w"
proof (induction symbols arbitrary: obj w)
  case Nil
  show ?case by simp
next
  case (Cons s symbols)
  obtain ps w1 where sp: "symbol_points days s w = (ps, w1)"
    by (cases "symbol_points days s w")
  have "clock_seq w1 = clock_seq w"
    using symbol_points_clock_seq [of days s w] by (simp add: sp)
  then show ?case by (simp add: sp Cons.IH)
qed

lemma generateDemoAnalysis_clock_seq:
  "clock_seq (snd (generateDemoAnalysis symbols period w)) = clock_seq w"
  by (simp add: generateDemoAnalysis_snd demo_symbols_clock_seq)

lemma demo_points_clock_calls:
  "clock_calls (snd (demo_points d i bp pts w)) = clock_calls w + nat (min 50 d - int i)"
proof (induction d i bp pts w rule: demo_points.induct)
  case (1 days i basePrice points w)
  show ?case
  proof (cases "int i < min 50 days")
    case True
    obtain p bp' w' where r: "demo_round days i basePrice w = (p, bp', w')"
      by (cases "demo_round days i basePrice w")
    have w': "w' = w\<lparr>random_calls := random_calls w + 2, clock_calls := Suc (clock_calls w)\<rparr>"
      using demo_round_world [of days i basePrice w] by (simp add: r)
    from True obtain n where n: "nat (min 50 days - int i) = Suc n"
      by (cases "nat (min 50 days - int i)") auto
    then have n': "nat (min 50 days - int (i + 1)) = n" by simp
    have ih: "clock_calls (snd (demo_points days (i + 1) bp' (points @ [p]) w'))
                = clock_calls w' + n"
      using "1" [OF True r [symmetric] refl] unfolding n' .
    show ?thesis
      by (subst demo_points.simps) (simp only: True if_True r prod.case ih n, simp add: w')
  next
    case False
    then have z: "nat (min 50 days - int i) = 0" by linarith
    show ?thesis
      by (subst demo_points.simps) (simp only: False if_False z, simp)
  qed
qed

lemma symbol_points_clock_calls:
  "clock_calls (snd (symbol_points (DayCount d) symbol w)) = clock_calls w + nat (min 50 d)"
  by (simp add: symbol_points_def Math_random_def Let_def demo_points_clock_calls)

lemma demo_symbols_Cons:
  "demo_symbols days (s # rest) obj w
     = demo_symbols days rest (Object_put s (fst (symbol_points days s w)) obj)
         (snd (symbol_points days s w))"
  by (simp split: prod.split)

lemma week_indices: "[0..<7] = [0, 1, 2, 3, 4, 5, 6::nat]"
  by (simp add: upt_rec)

text \<open>
  Claim C4 as stated fails. With a clock that advances by one millisecond per reading,
  the seven timestamps of a \<open>1w\<close> series are one day and one millisecond apart, and
  the last one lies a day before the clock readings, which run from 1700000000000 to
  1700000000006 during the loop and give 1700000000007 right after it.
\<close>

theorem one_week_last_point_counterexample:
  "map timestamp_ms (snd (hd (data (fst (generateDemoAnalysis [''AAPL''] ''1w'' ticking_world)))))
     = [1699395200000, 1699481600001, 1699568000002, 1699654400003, 1699740800004,
        1699827200005, 1699913600006]
   \<and> fst (Date_now (snd (generateDemoAnalysis [''AAPL''] ''1w'' ticking_world)))
       = 1700000000007"
proof -
  have a: "clock_calls (snd (generateDemoAnalysis [''AAPL''] ''1w'' ticking_world)) = 7"
    by (simp add: generateDemoAnalysis_snd getPeriodDays_1w demo_symbols_Cons
        symbol_points_clock_calls ticking_world_def del: demo_symbols.simps(2))
  show ?thesis
    by (simp add: generateDemoAnalysis_single getPeriodDays_1w symbol_points_timestamps
        week_indices Date_now_def generateDemoAnalysis_clock_seq a) (simp add: ticking_world_def)
qed


lemma week_timestamps_increasing:
  fixes f :: "nat \<Rightarrow> int"
  assumes "\<forall>n. f n \<le> f (Suc n)"
  shows "sorted_wrt (<) (map (\<lambda>i. f (n + i) - (7 - int i) * 86400000) [0..<7])"
proof -
  have step: "f k \<le> f (Suc k)" for k
    using assms by simp
  have mono: "f a \<le> f b" if "a \<le> b" for a b :: nat
    using step that by (rule lift_Suc_mono_le)
  have less: "f (n + i) - (7 - int i) * 86400000 < f (n + j) - (7 - int j) * 86400000"
    if "i < j" for i j
  proof -
    have "f (n + i) \<le> f (n + j)" using that by (intro mono) simp
    moreover have "int i < int j" using that by simp
    ultimately show ?thesis by (simp add: left_diff_distrib)
  qed
  have "sorted_wrt (<) [0..<7::nat]"
    by (rule sorted_wrt_upt)
  then have "sorted_wrt (\<lambda>i j. f (n + i) - (7 - int i) * 86400000
                              < f (n + j) - (7 - int j) * 86400000) [0..<7]"
    by (rule sorted_wrt_mono_rel [rotated]) (rule less)
  then show ?thesis
    by (simp only: sorted_wrt_map)
qed

text \<open>
  Claim C4, amended. For the period token \<open>1w\<close> every generated series has exactly 7
  points. The point of round \<open>i\<close> (0 to 6) carries the clock reading of that round
  minus \<open>7 - i\<close> days. So the timestamps are strictly increasing when the clock never
  runs backwards; and when the clock stands still at \<open>now\<close> they are exactly one day
  apart and run from \<open>now\<close> minus 7 days to \<open>now\<close> minus 1 day: the last point is
  one day before the current time.
\<close>

theorem one_week_series:
  assumes "(symbol, pts) \<in> set (data (fst (generateDemoAnalysis symbols ''1w'' w)))"
  shows "length pts = 7
    \<and> (\<exists>n. map timestamp_ms pts
             = map (\<lambda>i. clock_seq w (n + i) - (7 - int i) * 86400000) [0..<7])
    \<and> ((\<forall>n. clock_seq w n \<le> clock_seq w (Suc n)) \<longrightarrow>
          sorted_wrt (<) (map timestamp_ms pts))
    \<and> ((\<forall>n. clock_seq w n = now) \<longrightarrow>
          map timestamp_ms pts
            = [now - 7 * 86400000, now - 6 * 86400000, now - 5 * 86400000,
               now - 4 * 86400000, now - 3 * 86400000, now - 2 * 86400000,
               now - 1 * 86400000])"
proof -
  from generateDemoAnalysis_entries [OF assms] obtain w'
    where cs: "clock_seq w' = clock_seq w"
      and pts: "pts = fst (symbol_points (DayCount 7) symbol w')"
    by (auto simp: getPeriodDays_1w)
  have len: "length pts = 7"
    by (simp add: pts symbol_points_length)
  have ts: "map timestamp_ms pts
      = map (\<lambda>i. clock_seq w (clock_calls w' + i) - (7 - int i) * 86400000) [0..<7]"
    by (simp add: pts symbol_points_timestamps cs)
  have inc: "sorted_wrt (<) (map timestamp_ms pts)"
    if "\<forall>n. clock_seq w n \<le> clock_seq w (Suc n)"
    unfolding ts using that by (rule week_timestamps_increasing)
  have still: "map timestamp_ms pts
            = [now - 7 * 86400000, now - 6 * 86400000, now - 5 * 86400000,
               now - 4 * 86400000, now - 3 * 86400000, now - 2 * 86400000,
               now - 1 * 86400000]"
    if "\<forall>n. clock_seq w n = now"
    unfolding ts using that by (simp add: week_indices)
  show ?thesis
  proof (intro conjI impI)
    show "length pts = 7" by (rule len)
    show "\<exists>n. map timestamp_ms pts
             = map (\<lambda>i. clock_seq w (n + i) - (7 - int i) * 86400000) [0..<7]"
      using ts by (rule exI)
    show "sorted_wrt (<) (map timestamp_ms pts)"
      if "\<forall>n. clock_seq w n \<le> clock_seq w (Suc n)"
      using that by (rule inc)
    show "map timestamp_ms pts
            = [now - 7 * 86400000, now - 6 * 86400000, now - 5 * 86400000,
               now - 4 * 86400000, now - 3 * 86400000, now - 2 * 86400000,
               now - 1 * 86400000]"
      if "\<forall>n. clock_seq w n = now"
      using that by (rule still)
  qed
qed


theorem one_week_series_witness:
  "(''AAPL'', fst (symbol_points (DayCount 7) ''AAPL'' still_world))
     \<in> set (data (fst (generateDemoAnalysis [''AAPL''] ''1w'' still_world)))
   \<and> length (fst (symbol_points (DayCount 7) ''AAPL'' still_world)) = 7
   \<and> sorted_wrt (<) (map timestamp_ms (fst (symbol_points (DayCount 7) ''AAPL'' still_world)))
   \<and> map timestamp_ms (fst (symbol_points (DayCount 7) ''AAPL'' still_world))
       = [1699395200000, 1699481600000, 1699568000000, 1699654400000, 1699740800000,
          1699827200000, 1699913600000]"
proof -
  let ?pts = "fst (symbol_points (DayCount 7) ''AAPL'' still_world)"
  have h: "(''AAPL'', ?pts) \<in> set (data (fst (generateDemoAnalysis [''AAPL''] ''1w'' still_world)))"
    by (simp add: generateDemoAnalysis_single getPeriodDays_1w)
  have mono: "\<forall>n. clock_seq still_world n \<le> clock_seq still_world (Suc n)"
    by (simp add: still_world_def)
  have still: "\<forall>n. clock_seq still_world n = 1700000000000"
    by (simp add: still_world_def)
  note r = one_week_series [OF h, of 1700000000000]
  have c1: "length ?pts = 7"
    by (rule r [THEN conjunct1])
  have c2: "sorted_wrt (<) (map timestamp_ms ?pts)"
    by (rule r [THEN conjunct2, THEN conjunct2, THEN conjunct1, THEN mp, OF mono])
  have c3: "map timestamp_ms ?pts
       = [1700000000000 - 7 * 86400000, 1700000000000 - 6 * 86400000,
          1700000000000 - 5 * 86400000, 1700000000000 - 4 * 86400000,
          1700000000000 - 3 * 86400000, 1700000000000 - 2 * 86400000,
          1700000000000 - 1 * 86400000]"
    by (rule r [THEN conjunct2, THEN conjunct2, THEN conjunct2, THEN mp, OF still])
  have c4: "map timestamp_ms ?pts
       = [1699395200000, 1699481600000, 1699568000000, 1699654400000, 1699740800000,
          1699827200000, 1699913600000]"
    unfolding c3 by simp
  show ?thesis by (intro conjI h c1 c2 c4)
qed

lemma getPeriodDays_table:
  "map getPeriodDays [''24h'', ''3d'', ''1w'', ''2w'', ''1M'', ''3M'', ''6M'', ''1Y'', ''2Y'']
     = map DayCount [1, 3, 7, 14, 30, 90, 180, 365, 730]"
  by (simp add: getPeriodDays_def Object_get_def periodMap_def)

lemma getPeriodDays_unknown:
  "period \<notin> set (Map_keys periodMap) \<Longrightarrow> period \<notin> set Object_prototype_members \<Longrightarrow>
     getPeriodDays period = DayCount 1"
  by (simp add: getPeriodDays_def Object_get_def Map_keys_def map_of_eq_None_iff [THEN iffD2])

lemma generated_point_count:
  "(symbol, pts) \<in> set (data (fst (generateDemoAnalysis symbols period w))) \<Longrightarrow>
   getPeriodDays period = DayCount d \<Longrightarrow> length pts = nat (min 50 d)"
  using generateDemoAnalysis_entries [of symbol pts symbols period w]
  by (auto simp: symbol_points_length)

lemma two_years_fifty_points:
  "(symbol, pts) \<in> set (data (fst (generateDemoAnalysis symbols ''2Y'' w))) \<Longrightarrow>
   length pts = 50"
proof -
  have "getPeriodDays ''2Y'' = DayCount 730"
    by (simp add: getPeriodDays_def Object_get_def periodMap_def)
  then show "(symbol, pts) \<in> set (data (fst (generateDemoAnalysis symbols ''2Y'' w))) \<Longrightarrow>
   length pts = 50"
    using generated_point_count [of symbol pts symbols "''2Y''" w 730] by simp
qed

lemma getPeriodDays_constructor: "getPeriodDays ''constructor'' = Member ''constructor''"
  by (simp add: getPeriodDays_def Object_get_def periodMap_def Object_prototype_members_def)

text \<open>
  Claim C5 at the period token \<open>constructor\<close>, which is not in the table:
  \<open>getPeriodDays\<close> returns the member inherited from \<open>Object.prototype\<close> instead of
  1, and the series generated for a symbol has no point instead of one.
\<close>

theorem inherited_member_token_yields_no_points:
  "getPeriodDays ''constructor'' = Member ''constructor''
   \<and> data (fst (generateDemoAnalysis [''AAPL''] ''constructor'' w)) = [(''AAPL'', [])]"
  by (simp add: generateDemoAnalysis_single getPeriodDays_constructor symbol_points_Member)

text \<open>
  Claim C10 at the symbol list \<open>AAPL\<close>, \<open>__proto__\<close>: the result reports success, but
  its data has the single key \<open>AAPL\<close>; the second symbol has no series.
\<close>

theorem proto_symbol_gets_no_series:
  "Map_keys (data (fst (generateDemoAnalysis [''AAPL'', ''__proto__''] ''1w'' w))) = [''AAPL'']
   \<and> success (fst (generateDemoAnalysis [''AAPL'', ''__proto__''] ''1w'' w)) = True"
  by (simp add: generateDemoAnalysis_fst demo_symbols_Cons Object_put_def Map_keys_def
      del: demo_symbols.simps(2))

subsection \<open>Chart configuration\<close>

lemma chart_series_price_names:
  "map name (chart_series ''price'' m ci acc) = map name acc @ Map_keys m"
  by (induction m arbitrary: ci acc) (simp_all add: Map_keys_def)

lemma chart_series_price_data:
  "map series_data (chart_series ''price'' m ci acc)
     = map series_data acc @ map (\<lambda>e. map (\<lambda>p. (timestamp_ms p, close p)) (snd e)) m"
  by (induction m arbitrary: ci acc) simp_all

lemma chart_series_percentage_names:
  "map name (chart_series ''percentage'' m ci acc) = map name acc @ Map_keys m"
  by (induction m arbitrary: ci acc) (simp_all add: Map_keys_def)

lemma chart_series_percentage_data:
  "map series_data (chart_series ''percentage'' m ci acc)
     = map series_data acc
       @ map (\<lambda>e. map (\<lambda>p. (timestamp_ms p, percentage_change p)) (snd e)) m"
  by (induction m arbitrary: ci acc) simp_all

text \<open>
  Claim C6. With a chart instance, \<open>updateChart\<close> hands the chart library the
  placeholder option when the chart data is empty: it has no series and the title
  \<open>Select symbols to begin analysis\<close>. For non-empty chart data and the chart type
  \<open>price\<close> or \<open>percentage\<close> the option has one series per entry, named by the
  entry's key in the order of the map, whose values pair each point's timestamp with
  its close price, respectively its percentage change.
\<close>

theorem chart_configuration:
  assumes "chartInstance st"
  shows "(chartData st = [] \<longrightarrow>
            updateChart chartType st = Some (getEmptyChartOption, False)
            \<and> series getEmptyChartOption = None
            \<and> title_text getEmptyChartOption = ''Select symbols to begin analysis'')
    \<and> (chartData st \<noteq> [] \<and> chartType = ''price'' \<longrightarrow>
          (\<exists>opt ss. updateChart chartType st = Some (opt, True)
             \<and> series opt = Some ss
             \<and> map name ss = Map_keys (chartData st)
             \<and> map series_data ss
                 = map (\<lambda>e. map (\<lambda>p. (timestamp_ms p, close p)) (snd e)) (chartData st)))
    \<and> (chartData st \<noteq> [] \<and> chartType = ''percentage'' \<longrightarrow>
          (\<exists>opt ss. updateChart chartType st = Some (opt, True)
             \<and> series opt = Some ss
             \<and> map name ss = Map_keys (chartData st)
             \<and> map series_data ss
                 = map (\<lambda>e. map (\<lambda>p. (timestamp_ms p, percentage_change p)) (snd e))
                     (chartData st)))"
proof (intro conjI impI)
  assume "chartData st = []"
  with assms show "updateChart chartType st = Some (getEmptyChartOption, False)"
    by (simp add: updateChart_def)
next
  show "series getEmptyChartOption = None"
    by (simp add: getEmptyChartOption_def)
next
  show "title_text getEmptyChartOption = ''Select symbols to begin analysis''"
    by (simp add: getEmptyChartOption_def)
next
  assume a: "chartData st \<noteq> [] \<and> chartType = ''price''"
  let ?opt = "generateChartOption ''price'' st"
  let ?ss = "chart_series ''price'' (chartData st) 0 []"
  have "updateChart chartType st = Some (?opt, True)"
    using a assms by (simp add: updateChart_def)
  moreover have "series ?opt = Some ?ss"
    by (simp add: generateChartOption_def)
  moreover have "map name ?ss = Map_keys (chartData st)"
    by (simp add: chart_series_price_names)
  moreover have "map series_data ?ss
      = map (\<lambda>e. map (\<lambda>p. (timestamp_ms p, close p)) (snd e)) (chartData st)"
    by (simp add: chart_series_price_data)
  ultimately show "\<exists>opt ss. updateChart chartType st = Some (opt, True)
             \<and> series opt = Some ss
             \<and> map name ss = Map_keys (chartData st)
             \<and> map series_data ss
                 = map (\<lambda>e. map (\<lambda>p. (timestamp_ms p, close p)) (snd e)) (chartData st)"
    by blast
next
  assume a: "chartData st \<noteq> [] \<and> chartType = ''percentage''"
  let ?opt = "generateChartOption ''percentage'' st"
  let ?ss = "chart_series ''percentage'' (chartData st) 0 []"
  have "updateChart chartType st = Some (?opt, True)"
    using a assms by (simp add: updateChart_def)
  moreover have "series ?opt = Some ?ss"
    by (simp add: generateChartOption_def)
  moreover have "map name ?ss = Map_keys (chartData st)"
    by (simp add: chart_series_percentage_names)
  moreover have "map series_data ?ss
      = map (\<lambda>e. map (\<lambda>p. (timestamp_ms p, percentage_change p)) (snd e)) (chartData st)"
    by (simp add: chart_series_percentage_data)
  ultimately show "\<exists>opt ss. updateChart chartType st = Some (opt, True)
             \<and> series opt = Some ss
             \<and> map name ss = Map_keys (chartData st)
             \<and> map series_data ss
                 = map (\<lambda>e. map (\<lambda>p. (timestamp_ms p, percentage_change p)) (snd e))
                     (chartData st)"
    by blast
qed

theorem chart_configuration_witness:
  "chartInstance demo_state \<and> chartData demo_state = []
   \<and> updateChart ''price'' demo_state = Some (getEmptyChartOption, False)
   \<and> chartInstance charted_state \<and> chartData charted_state \<noteq> []
   \<and> (\<exists>opt ss. updateChart ''price'' charted_state = Some (opt, True)
          \<and> series opt = Some ss \<and> map name ss = [''A'']
          \<and> map series_data ss = [[(1, 2)]])
   \<and> (\<exists>opt ss. updateChart ''percentage'' charted_state = Some (opt, True)
          \<and> series opt = Some ss \<and> map name ss = [''A'']
          \<and> map series_data ss = [[(1, 3)]])"
proof -
  have i1: "chartInstance demo_state"
    by (simp add: demo_state_def initializeChart_def)
  have e1: "chartData demo_state = []"
    by (simp add: demo_state_def initializeChart_def GSMTApp_def)
  have i2: "chartInstance charted_state"
    by (simp add: charted_state_def full_state_def demo_state_def initializeChart_def)
  have cd: "chartData charted_state = [(''A'', [sample_point 1 2 3])]"
    by (simp add: charted_state_def)
  have e2: "chartData charted_state \<noteq> []"
    by (simp add: cd)
  have c1: "updateChart ''price'' demo_state = Some (getEmptyChartOption, False)"
    using chart_configuration [OF i1, of "''price''"] e1 by blast
  have c2: "\<exists>opt ss. updateChart ''price'' charted_state = Some (opt, True)
          \<and> series opt = Some ss \<and> map name ss = [''A'']
          \<and> map series_data ss = [[(1, 2)]]"
    using chart_configuration [OF i2, of "''price''"] e2
    by (simp add: cd Map_keys_def sample_point_def)
  have c3: "\<exists>opt ss. updateChart ''percentage'' charted_state = Some (opt, True)
          \<and> series opt = Some ss \<and> map name ss = [''A'']
          \<and> map series_data ss = [[(1, 3)]]"
    using chart_configuration [OF i2, of "''percentage''"] e2
    by (simp add: cd Map_keys_def sample_point_def)
  show ?thesis by (intro conjI i1 e1 c1 i2 e2 c2 c3)
qed


subsection \<open>Chart data and selection\<close>

lemma set_Object_entries: "set (Object_entries obj) = set obj"
  by (auto simp: Object_entries_def)

lemma distinct_keys_Object_entries:
  assumes "distinct (Map_keys obj)"
  shows "distinct (Map_keys (Object_entries obj))"
proof -
  from assms have d: "distinct obj" and inj: "inj_on fst (set obj)"
    by (simp_all add: Map_keys_def distinct_map)
  have "distinct (Object_entries obj)"
    using d by (auto simp: Object_entries_def)
  moreover have "inj_on fst (set (Object_entries obj))"
    using inj by (simp add: set_Object_entries)
  ultimately show ?thesis
    by (simp add: Map_keys_def distinct_map)
qed

lemma keys_fold_Map_set:
  "set (Map_keys (fold (\<lambda>e m. Map_set (fst e) (snd e) m) xs acc))
     = set (Map_keys acc) \<union> set (Map_keys xs)"
proof (induction xs arbitrary: acc)
  case Nil
  show ?case by (simp add: Map_keys_def)
next
  case (Cons x xs)
  have "set (Map_keys (x # xs)) = insert (fst x) (set (Map_keys xs))"
    by (simp add: Map_keys_def)
  then show ?case by (simp add: Cons.IH keys_Map_set)
qed

lemma Map_set_new: "k \<notin> set (Map_keys m) \<Longrightarrow> Map_set k v m = m @ [(k, v)]"
  by (induction m) (auto simp: Map_keys_def)

lemma fold_Map_set_distinct:
  "distinct (Map_keys xs) \<Longrightarrow> set (Map_keys xs) \<inter> set (Map_keys acc) = {} \<Longrightarrow>
   fold (\<lambda>e m. Map_set (fst e) (snd e) m) xs acc = acc @ xs"
proof (induction xs arbitrary: acc)
  case Nil
  show ?case by simp
next
  case (Cons x xs)
  from Cons.prems have new: "fst x \<notin> set (Map_keys acc)"
    by (auto simp: Map_keys_def)
  from Cons.prems have d: "distinct (Map_keys xs)"
    by (simp add: Map_keys_def)
  from Cons.prems have disj: "set (Map_keys xs) \<inter> set (Map_keys (acc @ [x])) = {}"
    by (auto simp: Map_keys_def)
  show ?case
    using Cons.IH [OF d disj] by (simp add: Map_set_new [OF new])
qed

lemma store_analysis_keys:
  "set (Map_keys (chartData (store_analysis obj st))) = set (Map_keys obj)"
  by (simp add: store_analysis_def keys_fold_Map_set)
     (simp add: Map_keys_def set_Object_entries)

lemma store_analysis_distinct:
  assumes "distinct (Map_keys obj)"
  shows "chartData (store_analysis obj st) = Object_entries obj"
proof -
  have "distinct (Map_keys (Object_entries obj))"
    using assms by (rule distinct_keys_Object_entries)
  then have "fold (\<lambda>e m. Map_set (fst e) (snd e) m) (Object_entries obj) []
               = [] @ Object_entries obj"
    by (rule fold_Map_set_distinct) (simp add: Map_keys_def)
  then show ?thesis by (simp add: store_analysis_def)
qed

lemma store_analysis_selection [simp]:
  "selectedSymbols (store_analysis obj st) = selectedSymbols st"
  by (simp add: store_analysis_def)

lemma showToast_fields [simp]:
  "selectedSymbols (showToast m t st) = selectedSymbols st"
  "chartData (showToast m t st) = chartData st"
  "in_flight (showToast m t st) = in_flight st"
  by (simp_all add: showToast_def)

lemma setLoading_fields [simp]:
  "selectedSymbols (setLoading b st) = selectedSymbols st"
  "chartData (setLoading b st) = chartData st"
  "in_flight (setLoading b st) = in_flight st"
  by (simp_all add: setLoading_def)

lemma demo_store_keys_selected:
  "set (Map_keys (chartData (store_analysis (data (fst (generateDemoAnalysis symbols period w))) st)))
     \<subseteq> set symbols"
  by (auto simp: store_analysis_keys generateDemoAnalysis_keys)

lemma addSymbol_keeps: "chart_keys_selected st \<Longrightarrow> chart_keys_selected (addSymbol symbol st)"
  by (auto simp: chart_keys_selected_def addSymbol_def set_Set_add)

lemma removeSymbol_keeps:
  "chart_keys_selected st \<Longrightarrow> chart_keys_selected (removeSymbol symbol st)"
  by (auto simp: chart_keys_selected_def removeSymbol_def set_Set_delete keys_Map_delete)

lemma handleClear_keeps: "chart_keys_selected (handleClear st)"
  by (simp add: chart_keys_selected_def handleClear_def Map_keys_def)

lemma handleAnalyze_keeps:
  assumes "chart_keys_selected st"
  shows "chart_keys_selected (fst (handleAnalyze period chartType (st, w)))"
proof (cases "length (selectedSymbols st) = 0")
  case True
  with assms show ?thesis
    by (simp add: handleAnalyze_def chart_keys_selected_def)
next
  case False
  show ?thesis
  proof (cases "truthy_url (apiBaseUrl st)")
    case True
    with False assms show ?thesis
      by (simp add: handleAnalyze_def chart_keys_selected_def setLoading_def)
  next
    case no_api: False
    obtain a w1 where g: "generateDemoAnalysis (selectedSymbols st) period w = (a, w1)"
      by (cases "generateDemoAnalysis (selectedSymbols st) period w")
    have "set (Map_keys (chartData (store_analysis (data a) (setLoading True st))))
            \<subseteq> set (selectedSymbols st)"
      using demo_store_keys_selected [of "selectedSymbols st" period w "setLoading True st"]
      by (simp add: g)
    with False no_api show ?thesis
      by (simp add: handleAnalyze_def chart_keys_selected_def Let_def g setLoading_def)
  qed
qed

lemma analysis_fallback_keeps:
  "chart_keys_selected (fst (analysis_fallback period (st, w)))"
proof -
  obtain a w1 where g: "generateDemoAnalysis (selectedSymbols st) period w = (a, w1)"
    by (cases "generateDemoAnalysis (selectedSymbols st) period w")
  have "set (Map_keys (chartData (store_analysis (data a)
            (showToast ''Analysis failed. Using demo data.'' Error st))))
          \<subseteq> set (selectedSymbols st)"
    using demo_store_keys_selected [of "selectedSymbols st" period w
        "showToast ''Analysis failed. Using demo data.'' Error st"]
    by (simp add: g)
  then show ?thesis
    by (simp add: analysis_fallback_def chart_keys_selected_def Let_def g)
qed

lemma handleAnalyze_resume_failure_keeps:
  assumes "chart_keys_selected st" and "decoded result = None"
  shows "chart_keys_selected (fst (handleAnalyze_resume i result period (st, w)))"
proof (cases "i < length (in_flight st)")
  case False
  with assms show ?thesis by (simp add: handleAnalyze_resume_def)
next
  case True
  let ?st0 = "st\<lparr>in_flight := take i (in_flight st) @ drop (Suc i) (in_flight st)\<rparr>"
  obtain st1 w1 where f: "analysis_fallback period (?st0, w) = (st1, w1)"
    by (cases "analysis_fallback period (?st0, w)")
  have "chart_keys_selected st1"
    using analysis_fallback_keeps [of period ?st0 w] by (simp add: f)
  then have "chart_keys_selected (setLoading False st1)"
    by (simp add: chart_keys_selected_def)
  with True assms(2) show ?thesis
    by (simp add: handleAnalyze_resume_def Let_def f)
qed

lemma step_keeps:
  "chart_keys_selected (fst sw) \<Longrightarrow> \<not> stores_remote_data e \<Longrightarrow>
   chart_keys_selected (fst (step e sw))"
proof (cases e)
  case (Add x1)
  then show "chart_keys_selected (fst sw) \<Longrightarrow> ?thesis" by (simp add: addSymbol_keeps)
next
  case (Remove x2)
  then show "chart_keys_selected (fst sw) \<Longrightarrow> ?thesis" by (simp add: removeSymbol_keeps)
next
  case Clear
  then show ?thesis by (simp add: handleClear_keeps)
next
  case (Analyze period chartType)
  then show "chart_keys_selected (fst sw) \<Longrightarrow> ?thesis"
    using handleAnalyze_keeps [of "fst sw" period chartType "snd sw"] by simp
next
  case (Resume i result period)
  then show "chart_keys_selected (fst sw) \<Longrightarrow> \<not> stores_remote_data e \<Longrightarrow> ?thesis"
    using handleAnalyze_resume_failure_keeps [of "fst sw" result i period "snd sw"] by simp
qed

lemma run_keeps:
  "chart_keys_selected (fst sw) \<Longrightarrow> list_all (\<lambda>e. \<not> stores_remote_data e) evs \<Longrightarrow>
   chart_keys_selected (fst (run evs sw))"
  unfolding run_def
  by (induction evs arbitrary: sw) (simp_all add: step_keeps)

lemma handleAnalyze_resume_decoded:
  assumes "i < length (in_flight st)" and "decoded result = Some obj"
  shows "chartData (fst (handleAnalyze_resume i result period (st, w)))
           = chartData (store_analysis obj st)"
  using assms by (simp add: handleAnalyze_resume_def Let_def store_analysis_def)


lemmas session_defs =
  run_def handleAnalyze_def handleAnalyze_resume_def removeSymbol_def addSymbol_def
  api_state_def demo_state_def initializeChart_def GSMTApp_def setLoading_def showToast_def
  truthy_url_def decoded_def response_ok_def first_answer_def second_answer_def
  store_analysis_def Object_entries_def is_array_index_def is_digit_def
  Set_delete_def Set_add_def Set_has_def Map_delete_def Map_keys_def Let_def

lemma waiting_state_in_flight:
  "in_flight waiting_state
     = [\<lparr>req_symbols = [''A'', ''B''], req_period = ''1w'', req_chart_type = ''price''\<rparr>]"
  by (simp add: waiting_state_def session_defs)

lemma overlapping_state_in_flight:
  "in_flight overlapping_state
     = [\<lparr>req_symbols = [''A'', ''B''], req_period = ''1w'', req_chart_type = ''price''\<rparr>,
        \<lparr>req_symbols = [''A'', ''B''], req_period = ''1M'', req_chart_type = ''price''\<rparr>]"
  by (simp add: overlapping_state_def session_defs)

text \<open>
  Claim C2 as stated fails. With an API URL and the selection \<open>A\<close>, \<open>B\<close>: the
  analysis is started, \<open>B\<close> is removed while the request is in flight, and the answer
  for both symbols arrives. The chart data then has the keys \<open>A\<close> and \<open>B\<close>, and the
  selection is \<open>A\<close> alone.
\<close>

theorem removed_symbol_keeps_remote_entry_counterexample:
  "selectedSymbols (fst (run [Analyze ''1w'' ''price'', Remove ''B'', Resume 0 first_answer ''1w'']
       (api_state, still_world))) = [''A'']
   \<and> Map_keys (chartData (fst (run [Analyze ''1w'' ''price'', Remove ''B'',
       Resume 0 first_answer ''1w''] (api_state, still_world)))) = [''A'', ''B'']"
  by (simp add: session_defs)

text \<open>
  Claim C2, amended. The keys of the chart data stay within the selection under every
  sequence of add, remove, clear and analysis events in which no remote answer is
  stored: an analysis that generates synthetic data, at once or after a failed request,
  keys the map by the symbols selected at that moment. A remote answer that is decoded
  replaces the whole map by the entries of the answer, and its keys are the keys of the
  answer, selected or not.
\<close>

theorem chart_keys_selected_without_remote_data:
  "(chart_keys_selected st \<and> list_all (\<lambda>e. \<not> stores_remote_data e) evs \<longrightarrow>
      chart_keys_selected (fst (run evs (st, w))))
   \<and> (i < length (in_flight st) \<and> decoded result = Some obj \<longrightarrow>
      set (Map_keys (chartData (fst (handleAnalyze_resume i result period (st, w)))))
        = set (Map_keys obj))"
proof (intro conjI impI)
  assume "chart_keys_selected st \<and> list_all (\<lambda>e. \<not> stores_remote_data e) evs"
  then show "chart_keys_selected (fst (run evs (st, w)))"
    using run_keeps [of "(st, w)" evs] by simp
next
  assume "i < length (in_flight st) \<and> decoded result = Some obj"
  then show "set (Map_keys (chartData (fst (handleAnalyze_resume i result period (st, w)))))
        = set (Map_keys obj)"
    by (simp add: handleAnalyze_resume_decoded store_analysis_keys)
qed

theorem chart_keys_selected_without_remote_data_witness:
  "chart_keys_selected demo_state
   \<and> list_all (\<lambda>e. \<not> stores_remote_data e)
        [Add ''AAPL'', Analyze ''1w'' ''price'', Add ''MSFT'', Remove ''AAPL'',
         Resume 0 Rejected ''1w'']
   \<and> chart_keys_selected (fst (run
        [Add ''AAPL'', Analyze ''1w'' ''price'', Add ''MSFT'', Remove ''AAPL'',
         Resume 0 Rejected ''1w''] (demo_state, still_world)))
   \<and> 0 < length (in_flight waiting_state)
   \<and> decoded first_answer
       = Some [(''A'', [sample_point 1 100 0]), (''B'', [sample_point 1 50 0])]
   \<and> set (Map_keys (chartData (fst (handleAnalyze_resume 0 first_answer ''1w''
         (waiting_state, still_world))))) = {''A'', ''B''}"
proof -
  let ?evs = "[Add ''AAPL'', Analyze ''1w'' ''price'', Add ''MSFT'', Remove ''AAPL'',
         Resume 0 Rejected ''1w'']"
  let ?obj = "[(''A'', [sample_point 1 100 0]), (''B'', [sample_point 1 50 0])]"
  have h1: "chart_keys_selected demo_state"
    by (simp add: chart_keys_selected_def demo_state_def initializeChart_def GSMTApp_def
        Map_keys_def)
  have h2: "list_all (\<lambda>e. \<not> stores_remote_data e) ?evs"
    by (simp add: decoded_def)
  have h3: "0 < length (in_flight waiting_state)"
    by (simp add: waiting_state_in_flight)
  have h4: "decoded first_answer = Some ?obj"
    by (simp add: decoded_def first_answer_def response_ok_def)
  note r = chart_keys_selected_without_remote_data
  have c1: "chart_keys_selected (fst (run ?evs (demo_state, still_world)))"
    by (rule r [THEN conjunct1, THEN mp, OF conjI, OF h1 h2])
  have c2: "set (Map_keys (chartData (fst (handleAnalyze_resume 0 first_answer ''1w''
         (waiting_state, still_world))))) = set (Map_keys ?obj)"
    by (rule r [THEN conjunct2, THEN mp, OF conjI, OF h3 h4])
  have c3: "set (Map_keys (chartData (fst (handleAnalyze_resume 0 first_answer ''1w''
         (waiting_state, still_world))))) = {''A'', ''B''}"
    unfolding c2 by (simp add: Map_keys_def)
  show ?thesis by (intro conjI h1 h2 c1 h3 h4 c3)
qed

text \<open>
  Claim C3 as stated fails. Two analyses are started one after the other (periods
  \<open>1w\<close> and \<open>1M\<close>), the answer to the second arrives first and the answer to the
  first arrives last: the chart data ends as the answer to the first request.
\<close>

theorem stale_response_overwrites_counterexample:
  "map req_period (in_flight (fst (run [Analyze ''1w'' ''price'', Analyze ''1M'' ''price'']
       (api_state, still_world)))) = [''1w'', ''1M'']
   \<and> chartData (fst (run [Analyze ''1w'' ''price'', Analyze ''1M'' ''price'',
         Resume 1 second_answer ''1M'', Resume 0 first_answer ''1M''] (api_state, still_world)))
       = [(''A'', [sample_point 1 100 0]), (''B'', [sample_point 1 50 0])]"
  by (simp add: session_defs)

text \<open>
  Claim C3, amended. Whichever suspended call a decoded answer belongs to, resuming it
  replaces the chart data by the entries of that answer: the final chart data is that of
  the answer that arrived last, and no answer is discarded as stale.
\<close>

theorem last_resolved_response_wins:
  assumes "i < length (in_flight st)" and "decoded result = Some obj"
    and "distinct (Map_keys obj)"
  shows "chartData (fst (handleAnalyze_resume i result period (st, w))) = Object_entries obj"
  using assms by (simp add: handleAnalyze_resume_decoded store_analysis_distinct)

theorem last_resolved_response_wins_witness:
  "1 < length (in_flight overlapping_state)
   \<and> decoded second_answer
       = Some [(''A'', [sample_point 2 200 0]), (''B'', [sample_point 2 70 0])]
   \<and> distinct (Map_keys [(''A'', [sample_point 2 200 0]), (''B'', [sample_point 2 70 0])])
   \<and> chartData (fst (handleAnalyze_resume 1 second_answer ''1M''
         (overlapping_state, still_world)))
       = [(''A'', [sample_point 2 200 0]), (''B'', [sample_point 2 70 0])]"
proof -
  let ?obj = "[(''A'', [sample_point 2 200 0]), (''B'', [sample_point 2 70 0])]"
  have h1: "1 < length (in_flight overlapping_state)"
    by (simp add: overlapping_state_in_flight)
  have h2: "decoded second_answer = Some ?obj"
    by (simp add: decoded_def second_answer_def response_ok_def)
  have h3: "distinct (Map_keys ?obj)"
    by (simp add: Map_keys_def)
  have e: "Object_entries ?obj = ?obj"
    by (simp add: Object_entries_def is_array_index_def is_digit_def)
  have c: "chartData (fst (handleAnalyze_resume 1 second_answer ''1M''
         (overlapping_state, still_world))) = ?obj"
    using last_resolved_response_wins [OF h1 h2 h3, of "''1M''" still_world]
    by (simp only: e)
  show ?thesis by (intro conjI h1 h2 h3 c)
qed


subsection \<open>Settings round trip\<close>

lemma map_of_Map_set: "map_of (Map_set k v m) k' = (if k' = k then Some v else map_of m k')"
  by (induction m) auto

lemma map_of_fold_Map_set:
  "distinct (Map_keys xs) \<Longrightarrow>
   map_of (fold (\<lambda>e m. Map_set (fst e) (snd e) m) xs acc) k
     = (case map_of xs k of Some v \<Rightarrow> Some v | None \<Rightarrow> map_of acc k)"
proof (induction xs arbitrary: acc)
  case Nil
  show ?case by simp
next
  case (Cons x xs)
  obtain k' v' where x: "x = (k', v')" by (cases x)
  from Cons.prems have d: "distinct (Map_keys xs)" and new: "k' \<notin> fst ` set xs"
    by (simp_all add: Map_keys_def x)
  from new have none: "map_of xs k' = None"
    by (simp add: map_of_eq_None_iff)
  show ?case
    by (simp add: Cons.IH [OF d] x map_of_Map_set none split: option.split)
qed

lemma map_of_Object_entries:
  "distinct (Map_keys obj) \<Longrightarrow> map_of (Object_entries obj) k = map_of obj k"
proof -
  assume d: "distinct (Map_keys obj)"
  then have "distinct (map fst (Object_entries obj))"
    using distinct_keys_Object_entries [of obj] by (simp add: Map_keys_def)
  moreover from d have "distinct (map fst obj)" by (simp add: Map_keys_def)
  ultimately show ?thesis
    by (intro map_of_inject_set [THEN iffD2, THEN fun_cong]) (simp_all add: set_Object_entries)
qed

lemma Object_get_Own: "map_of obj k = Some v \<Longrightarrow> Object_get obj k = Own v"
  by (simp add: Object_get_def)

lemma distinct_keys_Map_set:
  "distinct (Map_keys m) \<Longrightarrow> distinct (Map_keys (Map_set k v m))"
proof (induction m)
  case Nil
  show ?case by (simp add: Map_keys_def)
next
  case (Cons e m)
  obtain k' v' where e: "e = (k', v')" by (cases e)
  from Cons.prems have d: "distinct (Map_keys m)" and new: "k' \<notin> set (Map_keys m)"
    by (simp_all add: Map_keys_def e)
  have keys: "set (Map_keys (Map_set k v m)) = insert k (set (Map_keys m))"
    by (rule keys_Map_set)
  show ?case
  proof (cases "k' = k")
    case True
    with Cons.prems show ?thesis by (simp add: e Map_keys_def)
  next
    case False
    have "distinct (Map_keys (Map_set k v m))" using d by (rule Cons.IH)
    moreover have "k' \<notin> set (Map_keys (Map_set k v m))"
      using new False by (simp add: keys)
    ultimately show ?thesis using False by (simp add: e Map_keys_def)
  qed
qed

text \<open>
  Claim C9. \<open>saveSettings\<close> with the checkbox value \<open>autoRefresh\<close> and an interval
  field that \<open>parseInt\<close> reads as the integer \<open>n\<close>, followed by a new session on
  the storage it leaves: the settings of the new session have \<open>autoRefresh\<close> and
  \<open>refreshInterval\<close> equal to the saved ones, which are the two values entered. The
  platform is assumed to read back with \<open>JSON.parse\<close> what \<open>JSON.stringify\<close> wrote
  for the saved object, a non-empty text; the settings object has each key once.
\<close>

theorem settings_round_trip:
  assumes wf: "distinct (Map_keys (settings st))"
    and nonempty: "JSON_stringify (settings (fst (saveSettings JSON_stringify apiUrl
                     autoRefresh (Num n) (st, ls)))) \<noteq> []"
    and codec: "JSON_parse (JSON_stringify (settings (fst (saveSettings JSON_stringify apiUrl
                     autoRefresh (Num n) (st, ls)))))
                  = Some (settings (fst (saveSettings JSON_stringify apiUrl
                     autoRefresh (Num n) (st, ls))))"
  shows "Object_get (settings (fst (saveSettings JSON_stringify apiUrl
                     autoRefresh (Num n) (st, ls)))) ''autoRefresh''
           = Own (JBool autoRefresh)
       \<and> Object_get (settings (fst (saveSettings JSON_stringify apiUrl
                     autoRefresh (Num n) (st, ls)))) ''refreshInterval''
           = Own (JNumber (Num n))
       \<and> Object_get (settings (GSMTApp JSON_parse url (snd (saveSettings JSON_stringify apiUrl
                     autoRefresh (Num n) (st, ls))))) ''autoRefresh''
           = Own (JBool autoRefresh)
       \<and> Object_get (settings (GSMTApp JSON_parse url (snd (saveSettings JSON_stringify apiUrl
                     autoRefresh (Num n) (st, ls))))) ''refreshInterval''
           = Own (JNumber (Num n))"
proof -
  let ?obj = "Map_set ''refreshInterval'' (JNumber (Num n))
                (Map_set ''autoRefresh'' (JBool autoRefresh) (settings st))"
  let ?st' = "fst (saveSettings JSON_stringify apiUrl autoRefresh (Num n) (st, ls))"
  let ?ls' = "snd (saveSettings JSON_stringify apiUrl autoRefresh (Num n) (st, ls))"
  have st': "settings ?st' = ?obj"
    by (simp add: saveSettings_def Let_def Object_put_def showToast_def)
  have ls': "?ls' ''gsmt-settings'' = Some (JSON_stringify ?obj)"
    by (simp add: saveSettings_def Let_def Object_put_def showToast_def)
  have d: "distinct (Map_keys ?obj)"
    using wf by (intro distinct_keys_Map_set)
  have a: "map_of ?obj ''autoRefresh'' = Some (JBool autoRefresh)"
    by (simp add: map_of_Map_set)
  have b: "map_of ?obj ''refreshInterval'' = Some (JNumber (Num n))"
    by (simp add: map_of_Map_set)
  have loaded: "settings (GSMTApp JSON_parse url ?ls')
      = fold (\<lambda>e obj. Map_set (fst e) (snd e) obj) (Object_entries ?obj) defaultSettings"
    using nonempty codec unfolding st' by (simp add: GSMTApp_def loadSettings_def ls')
  have look: "map_of (settings (GSMTApp JSON_parse url ?ls')) k
      = (case map_of ?obj k of Some v \<Rightarrow> Some v | None \<Rightarrow> map_of defaultSettings k)" for k
    unfolding loaded
    using map_of_fold_Map_set [OF distinct_keys_Object_entries [OF d], of defaultSettings k]
    by (simp add: map_of_Object_entries [OF d])
  show ?thesis
    by (intro conjI Object_get_Own) (simp_all add: look a b st')
qed

theorem settings_round_trip_witness:
  "distinct (Map_keys (settings demo_state))
   \<and> sample_stringify (settings (fst (saveSettings sample_stringify ''https://api.example''
        True (Num 60) (demo_state, Map.empty)))) \<noteq> []
   \<and> sample_parse (sample_stringify (settings (fst (saveSettings sample_stringify
        ''https://api.example'' True (Num 60) (demo_state, Map.empty)))))
       = Some (settings (fst (saveSettings sample_stringify ''https://api.example''
        True (Num 60) (demo_state, Map.empty))))
   \<and> Object_get (settings (GSMTApp sample_parse None (snd (saveSettings sample_stringify
        ''https://api.example'' True (Num 60) (demo_state, Map.empty))))) ''autoRefresh''
       = Own (JBool True)
   \<and> Object_get (settings (GSMTApp sample_parse None (snd (saveSettings sample_stringify
        ''https://api.example'' True (Num 60) (demo_state, Map.empty))))) ''refreshInterval''
       = Own (JNumber (Num 60))"
proof -
  let ?st' = "fst (saveSettings sample_stringify ''https://api.example''
        True (Num 60) (demo_state, Map.empty))"
  have s0: "settings demo_state = defaultSettings"
    by (simp add: demo_state_def initializeChart_def GSMTApp_def loadSettings_def)
  have h1: "distinct (Map_keys (settings demo_state))"
    by (simp add: s0 defaultSettings_def Map_keys_def)
  have st': "settings ?st' = sample_settings"
    by (simp add: saveSettings_def Let_def Object_put_def showToast_def s0
        defaultSettings_def sample_settings_def)
  have h2: "sample_stringify (settings ?st') \<noteq> []"
    by (simp add: st' sample_stringify_def sample_text_def)
  have h3: "sample_parse (sample_stringify (settings ?st')) = Some (settings ?st')"
    by (simp add: st' sample_stringify_def sample_parse_def)
  note r = settings_round_trip [where st = demo_state and JSON_stringify = sample_stringify
      and apiUrl = "''https://api.example''" and autoRefresh = True and n = 60
      and ls = Map.empty and JSON_parse = sample_parse and url = None, OF h1 h2 h3]
  show ?thesis
    by (intro conjI h1 h2 h3 r [THEN conjunct2, THEN conjunct2, THEN conjunct1]
        r [THEN conjunct2, THEN conjunct2, THEN conjunct2])
qed

end
